theory Spec2Isabelle
  imports Complex_Main
begin

section \<open>LawBot: the provider dispatcher of chatbot/views.py\<close>

text \<open>
  The development embeds the fallback logic of \<^verbatim>\<open>chatbot/views.py\<close>: the three
  provider attempts \<^verbatim>\<open>try_openai_api\<close>, \<^verbatim>\<open>try_openrouter_api\<close> and
  \<^verbatim>\<open>try_alternative_openai_api\<close>, the dispatcher
  \<^verbatim>\<open>get_ai_response_external_only\<close> and the REST view \<^verbatim>\<open>chat_api\<close>.

  Python dictionaries with a fixed shape are datatypes or records, the module global
  \<^verbatim>\<open>OPENAI_API_KEY\<close> is a parameter \<open>key\<close>, and the two effects of the code, the
  outbound \<^verbatim>\<open>requests.post\<close> calls and the \<^verbatim>\<open>error_occurred\<close> signal, are
  logged in an explicit state that every function takes and returns.
  Strings are lists of characters; a character stands for a code point below 256.
\<close>

subsection \<open>Data\<close>

text \<open>\<^verbatim>\<open>settings.OPENAI_API_KEY\<close>: a string, or \<^verbatim>\<open>None\<close> when it is not configured.\<close>

type_synonym credential = "string option"

text \<open>One entry \<^verbatim>\<open>{"role": ..., "content": ...}\<close> of the outbound message list.\<close>

type_synonym turn = "string \<times> string"

text \<open>The keyword arguments of one \<^verbatim>\<open>requests.post\<close> call, the payload's keys flattened.\<close>

record request =
  url :: string
  headers :: "(string \<times> string) list"
  model :: string
  messages :: "turn list"
  max_tokens :: int
  temperature :: real
  timeout :: int

text \<open>
  The exceptions the handlers tell apart, each with its \<^verbatim>\<open>str(e)\<close>:
  \<^verbatim>\<open>requests.exceptions.Timeout\<close> (and its subclasses), any other
  \<^verbatim>\<open>requests.exceptions.RequestException\<close>, and any other \<^verbatim>\<open>Exception\<close>.
\<close>

datatype exn = Timeout string | RequestException string | OtherException string

text \<open>
  What the code reads of a response: \<^verbatim>\<open>resp.status_code\<close>, \<^verbatim>\<open>resp.text\<close>, and the
  value of \<^verbatim>\<open>resp.json()["choices"][0]["message"]["content"]\<close>, which is the text of the
  first completion choice (\<open>Inr\<close>) or the exception that evaluating the expression
  raises (\<open>Inl\<close>), for a body that is not JSON or has another shape.
\<close>

record response =
  status_code :: int
  resp_text :: string
  first_choice_content :: "exn + string"

datatype post_result = Returned response | Raised exn

text \<open>
  The network: the result of a \<^verbatim>\<open>requests.post\<close> call, which may depend on the calls made
  before it and on the request itself.
\<close>

type_synonym network = "request list \<Rightarrow> request \<Rightarrow> post_result"

text \<open>The function that makes an outbound call, kept with the call in the log.\<close>

datatype stage = Primary | OpenRouter | Alternative

record call =
  stage_of :: stage
  req :: request

text \<open>One \<^verbatim>\<open>error_occurred.send(sender=..., error_type=..., error_message=...)\<close>.\<close>

record notification =
  sender :: string
  error_type :: string
  error_message :: string

record world =
  calls :: "call list"
  signals :: "notification list"

definition init_world :: world where
  "init_world = \<lparr>calls = [], signals = []\<rparr>"

text \<open>
  The dictionaries the attempt functions return: \<^verbatim>\<open>{'success': True, 'response': r}\<close>, or
  \<^verbatim>\<open>{'success': False, 'error': m, 'error_type': k}\<close> where the key \<^verbatim>\<open>'error_type'\<close> may be
  missing.
\<close>

datatype result = Success string | Failure string "string option"

fun success :: "result \<Rightarrow> bool" where
  "success (Success r) = True"
| "success (Failure m k) = False"

fun kind_of :: "result \<Rightarrow> string option" where
  "kind_of (Success r) = None"
| "kind_of (Failure m k) = k"

subsection \<open>The message store\<close>

text \<open>
  Modelled from the spec: the model class \<^verbatim>\<open>Message\<close> (chatbot/models.py) is not among the
  sources. The spec describes the store as an append-only chronological sequence of
  turns with \<^verbatim>\<open>save(role, content) -> id\<close> and \<^verbatim>\<open>list(order) -> sequence\<close>; the serializer
  names the fields \<^verbatim>\<open>id\<close>, \<^verbatim>\<open>role\<close>, \<^verbatim>\<open>content\<close>, \<^verbatim>\<open>created_at\<close>. The rows are kept oldest
  first, which is the order \<^verbatim>\<open>Message.objects.all()\<close> returns them in. Reading the
  store is taken to succeed, so the handlers of the attempt functions see the exceptions
  of the outbound call and of reading its answer only.
\<close>

record message =
  msg_id :: nat
  role :: string
  content :: string

record store =
  rows :: "message list"
  next_id :: nat

definition Message_objects_all :: "store \<Rightarrow> message list" where
  "Message_objects_all db = rows db"

text \<open>Python's \<^verbatim>\<open>str.isspace\<close> on the code points below 256, and \<^verbatim>\<open>str.strip\<close>.\<close>

definition isspace :: "char \<Rightarrow> bool" where
  "isspace c = (of_char c \<in> {9, 10, 11, 12, 13, 28, 29, 30, 31, 32, 133, 160 :: nat})"

definition strip :: "string \<Rightarrow> string" where
  "strip s = rev (dropWhile isspace (rev (dropWhile isspace s)))"

text \<open>
  \<^verbatim>\<open>message_pre_save\<close> of chatbot/signals.py runs before every save: it raises
  \<^verbatim>\<open>ValueError\<close> on a blank content and cuts a content of more than 5000 characters.
\<close>

definition message_pre_save :: "string \<Rightarrow> exn + string" where
  "message_pre_save c =
     (if c = [] \<or> strip c = [] then Inl (OtherException ''Message content cannot be empty'')
      else if length c > 5000 then Inr (take 4997 c @ ''...'')
      else Inr c)"

text \<open>\<^verbatim>\<open>Message.objects.create(role=..., content=...)\<close>: the saved row and the new store.\<close>

definition Message_objects_create :: "string \<Rightarrow> string \<Rightarrow> store \<Rightarrow> exn + (message \<times> store)" where
  "Message_objects_create r c db =
     (case message_pre_save c of
        Inl e \<Rightarrow> Inl e
      | Inr c' \<Rightarrow>
          (let m = \<lparr>msg_id = next_id db, role = r, content = c'\<rparr>
           in Inr (m, \<lparr>rows = rows db @ [m], next_id = Suc (next_id db)\<rparr>)))"

subsection \<open>Strings and effects\<close>

text \<open>\<^verbatim>\<open>str\<close> of an integer, for the f-string with the status code.\<close>

fun str_nat :: "nat \<Rightarrow> string" where
  "str_nat n = (if n < 10 then [char_of (48 + n)] else str_nat (n div 10) @ [char_of (48 + n mod 10)])"

declare str_nat.simps [simp del]

definition str_int :: "int \<Rightarrow> string" where
  "str_int i = (if i < 0 then CHR ''-'' # str_nat (nat (- i)) else str_nat (nat i))"

text \<open>\<^verbatim>\<open>f"{OPENAI_API_KEY}"\<close>: the key, or \<^verbatim>\<open>None\<close> printed.\<close>

definition format_key :: "credential \<Rightarrow> string" where
  "format_key key = (case key of None \<Rightarrow> ''None'' | Some s \<Rightarrow> s)"

definition startswith :: "string \<Rightarrow> string \<Rightarrow> bool" where
  "startswith s p = (take (length p) s = p)"

text \<open>\<^verbatim>\<open>requests.post\<close>: the call is logged, the network answers.\<close>

definition requests_post :: "network \<Rightarrow> stage \<Rightarrow> request \<Rightarrow> world \<Rightarrow> post_result \<times> world" where
  "requests_post net st r w =
     (net (map req (calls w)) r, w\<lparr>calls := calls w @ [\<lparr>stage_of = st, req = r\<rparr>]\<rparr>)"

text \<open>
  \<^verbatim>\<open>error_occurred.send\<close>: the notification is logged. The receiver of chatbot/signals.py
  logs the error and counts it in the cache; it is taken not to raise.
\<close>

definition error_occurred_send :: "string \<Rightarrow> string \<Rightarrow> string \<Rightarrow> world \<Rightarrow> world" where
  "error_occurred_send s k m w =
     w\<lparr>signals := signals w @ [\<lparr>sender = s, error_type = k, error_message = m\<rparr>]\<rparr>"

subsection \<open>The provider attempts\<close>

definition system_prompt :: turn where
  "system_prompt =
     (''system'',
      ''You are a legal assistant. Provide general legal information, '' @
      ''but always say: '' @ [CHR 0x27] @ ''This is not legal advice.'' @ [CHR 0x27])"

definition messages_for_gpt :: "store \<Rightarrow> turn list" where
  "messages_for_gpt db = system_prompt # map (\<lambda>m. (role m, content m)) (Message_objects_all db)"

definition openai_url :: string where
  "openai_url = ''https://api.openai.com/v1/chat/completions''"

definition openrouter_url :: string where
  "openrouter_url = ''https://openrouter.ai/api/v1/chat/completions''"

definition openai_headers :: "credential \<Rightarrow> (string \<times> string) list" where
  "openai_headers key =
     [(''Authorization'', ''Bearer '' @ format_key key), (''Content-Type'', ''application/json'')]"

definition openrouter_headers :: "credential \<Rightarrow> (string \<times> string) list" where
  "openrouter_headers key =
     [(''Authorization'', ''Bearer '' @ format_key key), (''Content-Type'', ''application/json''),
      (''HTTP-Referer'', ''http://localhost:9000''), (''X-Title'', ''LawBot'')]"

definition openai_request :: "credential \<Rightarrow> store \<Rightarrow> string \<Rightarrow> request" where
  "openai_request key db mdl =
     \<lparr>url = openai_url, headers = openai_headers key, model = mdl,
      messages = messages_for_gpt db, max_tokens = 500, temperature = 0.2, timeout = 30\<rparr>"

definition openrouter_request :: "credential \<Rightarrow> store \<Rightarrow> request" where
  "openrouter_request key db =
     \<lparr>url = openrouter_url, headers = openrouter_headers key, model = ''gpt-4o-mini'',
      messages = messages_for_gpt db, max_tokens = 500, temperature = 0.2, timeout = 30\<rparr>"

text \<open>The three \<^verbatim>\<open>except\<close> clauses of \<^verbatim>\<open>try_openai_api\<close>, in the source's order.\<close>

fun openai_except :: "exn \<Rightarrow> result" where
  "openai_except (Timeout s) =
     Failure ''OpenAI API request timed out. Please try again.'' (Some ''timeout'')"
| "openai_except (RequestException s) =
     Failure (''OpenAI API network error: '' @ s) (Some ''network_error'')"
| "openai_except (OtherException s) =
     Failure (''OpenAI API error: '' @ s) (Some ''api_error'')"

definition try_openai_api :: "credential \<Rightarrow> store \<Rightarrow> network \<Rightarrow> string \<Rightarrow> world \<Rightarrow> result \<times> world" where
  "try_openai_api key db net user_input w =
     (case requests_post net Primary (openai_request key db ''gpt-3.5-turbo'') w of
        (Raised e, w1) \<Rightarrow> (openai_except e, w1)
      | (Returned resp, w1) \<Rightarrow>
          if status_code resp = 200 then
            (case first_choice_content resp of
               Inr reply_text \<Rightarrow> (Success reply_text, w1)
             | Inl e \<Rightarrow> (openai_except e, w1))
          else if status_code resp = 401 then
            (let error_msg = ''Invalid OpenAI API key. Please check your API key configuration.''
             in (Failure error_msg (Some ''auth_error''),
                 error_occurred_send ''try_openai_api'' ''auth_error'' error_msg w1))
          else if status_code resp = 429 then
            (let error_msg = ''Rate limit exceeded. Please try again later.''
             in (Failure error_msg (Some ''rate_limit''),
                 error_occurred_send ''try_openai_api'' ''rate_limit'' error_msg w1))
          else
            (let error_msg = ''OpenAI API Error (Status '' @ str_int (status_code resp) @ ''): ''
                             @ resp_text resp
             in (Failure error_msg (Some ''api_error''),
                 error_occurred_send ''try_openai_api'' ''api_error'' error_msg w1)))"

fun openrouter_except :: "exn \<Rightarrow> result" where
  "openrouter_except (Timeout s) =
     Failure ''OpenRouter API request timed out. Please try again.'' (Some ''timeout'')"
| "openrouter_except (RequestException s) =
     Failure (''OpenRouter API network error: '' @ s) (Some ''network_error'')"
| "openrouter_except (OtherException s) =
     Failure (''OpenRouter API error: '' @ s) (Some ''api_error'')"

definition try_openrouter_api :: "credential \<Rightarrow> store \<Rightarrow> network \<Rightarrow> string \<Rightarrow> world \<Rightarrow> result \<times> world" where
  "try_openrouter_api key db net user_input w =
     (case requests_post net OpenRouter (openrouter_request key db) w of
        (Raised e, w1) \<Rightarrow> (openrouter_except e, w1)
      | (Returned resp, w1) \<Rightarrow>
          if status_code resp = 200 then
            (case first_choice_content resp of
               Inr reply_text \<Rightarrow> (Success reply_text, w1)
             | Inl e \<Rightarrow> (openrouter_except e, w1))
          else if status_code resp = 401 then
            (let error_msg = ''Invalid OpenRouter API key. Please check your API key configuration.''
             in (Failure error_msg (Some ''auth_error''),
                 error_occurred_send ''try_openrouter_api'' ''auth_error'' error_msg w1))
          else if status_code resp = 429 then
            (let error_msg = ''OpenRouter rate limit exceeded. Please try again later.''
             in (Failure error_msg (Some ''rate_limit''),
                 error_occurred_send ''try_openrouter_api'' ''rate_limit'' error_msg w1))
          else
            (let error_msg = ''OpenRouter API Error (Status '' @ str_int (status_code resp) @ ''): ''
                             @ resp_text resp
             in (Failure error_msg (Some ''api_error''),
                 error_occurred_send ''try_openrouter_api'' ''api_error'' error_msg w1)))"

definition models_to_try :: "string list" where
  "models_to_try = [''gpt-3.5-turbo'', ''gpt-4'', ''gpt-4-turbo-preview'']"

text \<open>
  The \<^verbatim>\<open>for model in models_to_try\<close> loop. A status other than 200, 401 and 429 matches no
  branch of the \<^verbatim>\<open>if\<close> and falls through to the next model, as \<^verbatim>\<open>continue\<close> does.
\<close>

fun try_models :: "credential \<Rightarrow> store \<Rightarrow> network \<Rightarrow> string list \<Rightarrow> world \<Rightarrow> result \<times> world" where
  "try_models key db net [] w = (Failure ''All OpenAI models failed'' None, w)"
| "try_models key db net (mdl # rest) w =
     (case requests_post net Alternative (openai_request key db mdl) w of
        (Raised e, w1) \<Rightarrow> try_models key db net rest w1
      | (Returned resp, w1) \<Rightarrow>
          if status_code resp = 200 then
            (case first_choice_content resp of
               Inr reply_text \<Rightarrow> (Success reply_text, w1)
             | Inl e \<Rightarrow> try_models key db net rest w1)
          else if status_code resp = 401 then try_models key db net rest w1
          else if status_code resp = 429 then try_models key db net rest w1
          else try_models key db net rest w1)"

text \<open>
  The outer \<^verbatim>\<open>try\<close> of \<^verbatim>\<open>try_alternative_openai_api\<close> covers the construction of the
  message list and of the headers before the loop, which raise nothing here.
\<close>

definition try_alternative_openai_api :: "credential \<Rightarrow> store \<Rightarrow> network \<Rightarrow> string \<Rightarrow> world \<Rightarrow> result \<times> world" where
  "try_alternative_openai_api key db net user_input w = try_models key db net models_to_try w"

subsection \<open>The dispatcher\<close>

definition all_failed_msg :: string where
  "all_failed_msg = ''All external AI services are currently unavailable. '' @
                    ''Please check your API key configuration or try again later.''"

text \<open>\<^verbatim>\<open>if OPENAI_API_KEY\<close>: neither \<^verbatim>\<open>None\<close> nor the empty string.\<close>

fun truthy :: "credential \<Rightarrow> bool" where
  "truthy None = False"
| "truthy (Some s) = (s \<noteq> [])"

text \<open>\<^verbatim>\<open>OPENAI_API_KEY.startswith('sk-or-')\<close>, evaluated only behind \<^verbatim>\<open>OPENAI_API_KEY and\<close>.\<close>

fun key_startswith :: "credential \<Rightarrow> string \<Rightarrow> bool" where
  "key_startswith None p = False"
| "key_startswith (Some s) p = startswith s p"

text \<open>
  One guarded stage of the dispatcher: \<^verbatim>\<open>if guard: response = attempt(); if
  response.get('success'): return response\<close>. \<open>Inl\<close> is the early return.
\<close>

definition guarded :: "bool \<Rightarrow> (world \<Rightarrow> result \<times> world) \<Rightarrow> world \<Rightarrow> (result \<times> world) + world" where
  "guarded g attempt w =
     (if g then (case attempt w of (response, w1) \<Rightarrow>
                   if success response then Inl (response, w1) else Inr w1)
      else Inr w)"

definition get_ai_response_external_only :: "credential \<Rightarrow> store \<Rightarrow> network \<Rightarrow> string \<Rightarrow> world \<Rightarrow> result \<times> world" where
  "get_ai_response_external_only key db net user_input w =
     (case guarded (truthy key \<and> \<not> key_startswith key ''sk-or-'')
             (try_openai_api key db net user_input) w of
        Inl ret \<Rightarrow> ret
      | Inr w1 \<Rightarrow>
     (case guarded (truthy key \<and> key_startswith key ''sk-or-'')
             (try_openrouter_api key db net user_input) w1 of
        Inl ret \<Rightarrow> ret
      | Inr w2 \<Rightarrow>
     (case guarded (truthy key) (try_alternative_openai_api key db net user_input) w2 of
        Inl ret \<Rightarrow> ret
      | Inr w3 \<Rightarrow>
          (Failure all_failed_msg (Some ''all_apis_failed''),
           error_occurred_send ''get_ai_response_external_only'' ''all_apis_failed''
             all_failed_msg w3))))"

subsection \<open>The REST view\<close>

text \<open>
  \<^verbatim>\<open>ChatRequestSerializer\<close> has one field, \<^verbatim>\<open>CharField(max_length=1000, min_length=1)\<close>.
  The request data either lacks the field or carries a string; the field trims
  whitespace, rejects a blank value, checks the length of the trimmed value and
  refuses a null character.
  \<open>None\<close> is \<^verbatim>\<open>is_valid() == False\<close>, \<open>Some v\<close> is \<^verbatim>\<open>validated_data['message']\<close>.
\<close>

definition ChatRequestSerializer :: "string option \<Rightarrow> string option" where
  "ChatRequestSerializer data =
     (case data of
        None \<Rightarrow> None
      | Some s \<Rightarrow>
          (let v = strip s
           in if v = [] then None
              else if length v > 1000 then None
              else if length v < 1 then None
              else if CHR 0x00 \<in> set v then None
              else Some v))"

text \<open>
  The two response shapes: \<^verbatim>\<open>ChatResponseSerializer\<close> data (response, message_id) and
  \<^verbatim>\<open>ErrorResponseSerializer\<close> data (error, error_type), each with its HTTP status.
\<close>

datatype http_response = ChatResponse int string nat | ErrorResponse int string string

definition not_configured_msg :: string where
  "not_configured_msg = ''OpenAI API key is not configured. '' @
                        ''Please set the OPENAI_API_KEY environment variable.''"

text \<open>
  \<^verbatim>\<open>chat_api\<close>. An exception of \<^verbatim>\<open>Message.objects.create\<close> is not caught by the view and
  is the result \<open>Inl\<close>. \<^verbatim>\<open>ai_response.get('error_type', 'api_error')\<close> fills in a missing
  kind.
\<close>

definition chat_api ::
  "credential \<Rightarrow> store \<Rightarrow> network \<Rightarrow> string option \<Rightarrow> world \<Rightarrow> (exn + http_response) \<times> store \<times> world" where
  "chat_api key db net data w =
     (case ChatRequestSerializer data of
        None \<Rightarrow> (Inr (ErrorResponse 400 ''Invalid request data'' ''validation_error''), db, w)
      | Some user_input \<Rightarrow>
          if \<not> truthy key then
            (Inr (ErrorResponse 500 not_configured_msg ''configuration_error''), db, w)
          else
            (case Message_objects_create ''user'' user_input db of
               Inl e \<Rightarrow> (Inl e, db, w)
             | Inr (user_message, db1) \<Rightarrow>
                 (case get_ai_response_external_only key db1 net user_input w of
                    (Success r, w1) \<Rightarrow>
                      (case Message_objects_create ''assistant'' r db1 of
                         Inl e \<Rightarrow> (Inl e, db1, w1)
                       | Inr (assistant_message, db2) \<Rightarrow>
                           (Inr (ChatResponse 200 r (msg_id assistant_message)), db2, w1))
                  | (Failure m k, w1) \<Rightarrow>
                      (case Message_objects_create ''assistant'' m db1 of
                         Inl e \<Rightarrow> (Inl e, db1, w1)
                       | Inr (error_row, db2) \<Rightarrow>
                           (Inr (ErrorResponse 500 m
                                   (case k of None \<Rightarrow> ''api_error'' | Some t \<Rightarrow> t)),
                            db2, w1)))))"

subsection \<open>Notions used in the statements\<close>

text \<open>The calls and notifications a function adds, read off the state before and after.\<close>

definition new_calls :: "world \<Rightarrow> world \<Rightarrow> call list" where
  "new_calls w w' = drop (length (calls w)) (calls w')"

definition new_signals :: "world \<Rightarrow> world \<Rightarrow> notification list" where
  "new_signals w w' = drop (length (signals w)) (signals w')"

text \<open>
  The first stage of the dispatcher for a configured key: \<^verbatim>\<open>try_openrouter_api\<close> for a key
  that starts with \<^verbatim>\<open>sk-or-\<close>, \<^verbatim>\<open>try_openai_api\<close> otherwise; and the request it sends.
\<close>

definition first_stage ::
  "bool \<Rightarrow> credential \<Rightarrow> store \<Rightarrow> network \<Rightarrow> string \<Rightarrow> world \<Rightarrow> result \<times> world" where
  "first_stage via_openrouter =
     (if via_openrouter then try_openrouter_api else try_openai_api)"

definition first_request :: "bool \<Rightarrow> credential \<Rightarrow> store \<Rightarrow> request" where
  "first_request via_openrouter key db =
     (if via_openrouter then openrouter_request key db
      else openai_request key db ''gpt-3.5-turbo'')"

definition first_call :: "bool \<Rightarrow> credential \<Rightarrow> store \<Rightarrow> call" where
  "first_call via_openrouter key db =
     \<lparr>stage_of = (if via_openrouter then OpenRouter else Primary),
      req = first_request via_openrouter key db\<rparr>"

text \<open>The calls of the alternative-model stage, were every model of the list tried.\<close>

definition alternative_calls :: "credential \<Rightarrow> store \<Rightarrow> string list \<Rightarrow> call list" where
  "alternative_calls key db ms =
     map (\<lambda>mdl. \<lparr>stage_of = Alternative, req = openai_request key db mdl\<rparr>) ms"

text \<open>
  The reply a model's attempt ends the loop with: the text of an HTTP 200 response.
  Every other outcome of the attempt gives none.
\<close>

fun reply_of :: "post_result \<Rightarrow> string option" where
  "reply_of (Raised e) = None"
| "reply_of (Returned resp) =
     (if status_code resp = 200 then
        (case first_choice_content resp of Inr t \<Rightarrow> Some t | Inl e \<Rightarrow> None)
      else None)"

text \<open>
  The alternative-model stage as the spec words it: the models are tried in the order of
  the list, each request is answered by the network after the requests before it, the
  first reply wins, and an exhausted list is a plain failure.
\<close>

fun first_reply :: "network \<Rightarrow> request list \<Rightarrow> request list \<Rightarrow> string option \<times> nat" where
  "first_reply net h [] = (None, 0)"
| "first_reply net h (r # rs) =
     (case reply_of (net h r) of
        Some t \<Rightarrow> (Some t, 1)
      | None \<Rightarrow> (case first_reply net (h @ [r]) rs of (res, n) \<Rightarrow> (res, Suc n)))"

text \<open>Every stage the dispatcher attempts for this key fails.\<close>

definition all_stages_fail :: "credential \<Rightarrow> store \<Rightarrow> network \<Rightarrow> string \<Rightarrow> world \<Rightarrow> bool" where
  "all_stages_fail key db net user_input w =
     (if truthy key then
        (case first_stage (key_startswith key ''sk-or-'') key db net user_input w of
           (r1, w1) \<Rightarrow>
             \<not> success r1 \<and> \<not> success (fst (try_alternative_openai_api key db net user_input w1)))
      else True)"

text \<open>The system instruction in the spec's words.\<close>

definition spec_system_instruction :: string where
  "spec_system_instruction =
     ''You are a legal assistant. Provide general legal information, '' @
     ''but always say this is not legal advice.''"

text \<open>Concrete inputs: a store with one user turn, and networks with one fixed answer.\<close>

definition tort_store :: store where
  "tort_store = \<lparr>rows = [\<lparr>msg_id = 1, role = ''user'', content = ''What is a tort?''\<rparr>],
                 next_id = 2\<rparr>"

definition always :: "post_result \<Rightarrow> network" where
  "always p = (\<lambda>h r. p)"

definition http :: "int \<Rightarrow> string \<Rightarrow> exn + string \<Rightarrow> post_result" where
  "http code body c = Returned \<lparr>status_code = code, resp_text = body, first_choice_content = c\<rparr>"

definition ok_reply :: "string \<Rightarrow> post_result" where
  "ok_reply t = http 200 t (Inr t)"

text \<open>A network that fails the first \<open>n\<close> calls with status 500 and answers afterwards.\<close>

definition failing_first :: "nat \<Rightarrow> string \<Rightarrow> network" where
  "failing_first n t = (\<lambda>h r. if length h < n then http 500 ''down'' (Inl (OtherException ''down''))
                              else ok_reply t)"

text \<open>The stages whose calls a dispatch adds to the log, in the order of the calls.\<close>

definition stages_attempted :: "credential \<Rightarrow> store \<Rightarrow> network \<Rightarrow> string \<Rightarrow> world \<Rightarrow> stage list" where
  "stages_attempted key db net user_input w =
     map stage_of (new_calls w (snd (get_ai_response_external_only key db net user_input w)))"

text \<open>A network that answers the calls from a script, in order, and then a default.\<close>

definition scripted :: "post_result list \<Rightarrow> post_result \<Rightarrow> network" where
  "scripted ps d = (\<lambda>h r. if length h < length ps then ps ! length h else d)"

text \<open>The kind the \<^verbatim>\<open>except\<close> clauses give an exception, by its class.\<close>

fun except_kind :: "exn \<Rightarrow> string" where
  "except_kind (Timeout s) = ''timeout''"
| "except_kind (RequestException s) = ''network_error''"
| "except_kind (OtherException s) = ''api_error''"

text \<open>The name of the provider in the messages of the first stage.\<close>

definition provider_name :: "bool \<Rightarrow> string" where
  "provider_name via_openrouter = (if via_openrouter then ''OpenRouter'' else ''OpenAI'')"

text \<open>
  A request that carries the system prompt followed by the given turns, with the fixed
  token budget, temperature and timeout.
\<close>

definition carries :: "turn list \<Rightarrow> request \<Rightarrow> bool" where
  "carries turns r =
     (messages r = system_prompt # turns \<and> max_tokens r = 500 \<and> temperature r = 0.2 \<and>
      timeout r = 30)"

text \<open>The stored turns, oldest first, as the outbound message list has them.\<close>

definition history :: "store \<Rightarrow> turn list" where
  "history db = map (\<lambda>m. (role m, content m)) (rows db)"

section \<open>Properties\<close>

subsection \<open>What the stages do to the logs\<close>

lemma try_openai_api_user_input:
  "try_openai_api key db net u1 = try_openai_api key db net u2"
  by (rule ext) (simp add: try_openai_api_def)

lemma try_openrouter_api_user_input:
  "try_openrouter_api key db net u1 = try_openrouter_api key db net u2"
  by (rule ext) (simp add: try_openrouter_api_def)

lemma try_alternative_openai_api_user_input:
  "try_alternative_openai_api key db net u1 = try_alternative_openai_api key db net u2"
  by (rule ext) (simp add: try_alternative_openai_api_def)

lemma try_openai_api_calls:
  "calls (snd (try_openai_api key db net u w)) = calls w @ [first_call False key db]"
  by (simp add: try_openai_api_def requests_post_def first_call_def first_request_def
      error_occurred_send_def Let_def split: post_result.split sum.split)

lemma try_openrouter_api_calls:
  "calls (snd (try_openrouter_api key db net u w)) = calls w @ [first_call True key db]"
  by (simp add: try_openrouter_api_def requests_post_def first_call_def first_request_def
      error_occurred_send_def Let_def split: post_result.split sum.split)

lemma first_stage_calls:
  "calls (snd (first_stage b key db net u w)) = calls w @ [first_call b key db]"
  by (simp add: first_stage_def try_openai_api_calls try_openrouter_api_calls)

lemma try_models_signals:
  "signals (snd (try_models key db net ms w)) = signals w"
  by (induction ms arbitrary: w)
     (simp_all add: requests_post_def split: post_result.split sum.split)

text \<open>
  The loop over the models computes the first reply of the list, and logs one call for
  each model up to the one that replied.
\<close>

lemma try_models_first_reply:
  "try_models key db net ms w =
     (case first_reply net (map req (calls w)) (map (openai_request key db) ms) of
        (res, n) \<Rightarrow>
          ((case res of Some t \<Rightarrow> Success t | None \<Rightarrow> Failure ''All OpenAI models failed'' None),
           w\<lparr>calls := calls w @ take n (alternative_calls key db ms)\<rparr>))"
proof (induction ms arbitrary: w)
  case Nil
  show ?case by (simp add: alternative_calls_def)
next
  case (Cons mdl rest)
  show ?case
    by (simp add: Cons.IH requests_post_def alternative_calls_def
        split: post_result.split sum.split prod.split option.split)
qed

text \<open>The dispatcher, stage by stage, for a configured key and for a missing one.\<close>

lemma dispatch_configured:
  assumes "truthy key"
  shows "get_ai_response_external_only key db net u w =
     (case first_stage (key_startswith key ''sk-or-'') key db net u w of
        (r1, w1) \<Rightarrow>
          if success r1 then (r1, w1)
          else (case try_alternative_openai_api key db net u w1 of
                  (r2, w2) \<Rightarrow>
                    if success r2 then (r2, w2)
                    else (Failure all_failed_msg (Some ''all_apis_failed''),
                          error_occurred_send ''get_ai_response_external_only''
                            ''all_apis_failed'' all_failed_msg w2)))"
  using assms
  by (simp add: get_ai_response_external_only_def guarded_def first_stage_def
      split: prod.split)

lemma dispatch_unconfigured:
  assumes "\<not> truthy key"
  shows "get_ai_response_external_only key db net u w =
     (Failure all_failed_msg (Some ''all_apis_failed''),
      error_occurred_send ''get_ai_response_external_only'' ''all_apis_failed'' all_failed_msg w)"
  using assms by (simp add: get_ai_response_external_only_def guarded_def)

text \<open>A validated request text has no blank ends, so saving it leaves it as it is.\<close>

lemma strip_strip:
  assumes "strip s \<noteq> []"
  shows "strip (strip s) = strip s"
proof -
  let ?t = "dropWhile isspace s"
  let ?r = "dropWhile isspace (rev ?t)"
  have r: "?r \<noteq> []" using assms by (simp add: strip_def)
  have "rev ?t = takeWhile isspace (rev ?t) @ ?r" by simp
  then have "?t = rev ?r @ rev (takeWhile isspace (rev ?t))"
    by (metis rev_append rev_rev_ident)
  then have hd_eq: "hd (rev ?r) = hd ?t" and t: "?t \<noteq> []"
    using r by (metis hd_append2 rev_is_Nil_conv, metis Nil_is_append_conv rev_is_Nil_conv)
  have "\<not> isspace (hd ?t)" using t hd_dropWhile by blast
  then have a: "dropWhile isspace (rev ?r) = rev ?r"
    using hd_eq r by (simp add: dropWhile_eq_self_iff)
  have "\<not> isspace (hd ?r)" using r hd_dropWhile by blast
  then have b: "dropWhile isspace ?r = ?r"
    by (simp add: dropWhile_eq_self_iff)
  show ?thesis
    unfolding strip_def a rev_rev_ident b ..
qed

lemma validated_is_saved:
  assumes "ChatRequestSerializer data = Some v"
  shows "message_pre_save v = Inr v"
proof -
  from assms obtain s where v: "v = strip s" and ne: "strip s \<noteq> []" and le: "length (strip s) \<le> 1000"
    by (auto simp: ChatRequestSerializer_def Let_def split: option.splits if_splits)
  have "strip v = v" using v ne strip_strip by simp
  then show ?thesis using v ne le by (simp add: message_pre_save_def)
qed

lemma first_reply_count:
  "snd (first_reply net h rs) \<le> length rs \<and> (rs \<noteq> [] \<longrightarrow> 1 \<le> snd (first_reply net h rs))"
  by (induction rs arbitrary: h) (auto simp: case_prod_beta split: option.split)

lemma first_reply_None:
  "fst (first_reply net h rs) = None \<Longrightarrow> snd (first_reply net h rs) = length rs"
  by (induction rs arbitrary: h) (auto simp: case_prod_beta split: option.splits)

lemma alternative_calls_stages:
  "map stage_of (take n (alternative_calls key db ms)) = replicate (min n (length ms)) Alternative"
  by (simp add: alternative_calls_def take_map comp_def map_replicate_const min.commute)

lemma try_alternative_calls:
  "\<exists>n. 1 \<le> n \<and> n \<le> 3 \<and>
       calls (snd (try_alternative_openai_api key db net u w)) =
         calls w @ take n (alternative_calls key db models_to_try)
     \<and> (\<not> success (fst (try_alternative_openai_api key db net u w)) \<longrightarrow> n = 3)"
proof -
  let ?fr = "first_reply net (map req (calls w)) (map (openai_request key db) models_to_try)"
  have ne: "map (openai_request key db) models_to_try \<noteq> []" by (simp add: models_to_try_def)
  have len: "length (map (openai_request key db) models_to_try) = 3" by (simp add: models_to_try_def)
  have "1 \<le> snd ?fr \<and> snd ?fr \<le> 3" using first_reply_count [of net "map req (calls w)" "map (openai_request key db) models_to_try"] ne len by simp
  moreover have "calls (snd (try_alternative_openai_api key db net u w)) =
         calls w @ take (snd ?fr) (alternative_calls key db models_to_try)"
    by (simp add: try_alternative_openai_api_def try_models_first_reply split: prod.split)
  moreover have "\<not> success (fst (try_alternative_openai_api key db net u w)) \<longrightarrow> snd ?fr = 3"
    using first_reply_None [of net "map req (calls w)" "map (openai_request key db) models_to_try"] len
    by (auto simp add: try_alternative_openai_api_def try_models_first_reply split: prod.splits option.splits)
  ultimately show ?thesis by blast
qed

lemma dispatch_calls:
  assumes "truthy key"
  shows "\<exists>n. 1 \<le> n \<and> n \<le> 3 \<and>
     new_calls w (snd (get_ai_response_external_only key db net u w)) =
       first_call (key_startswith key ''sk-or-'') key db #
       (if success (fst (first_stage (key_startswith key ''sk-or-'') key db net u w)) then []
        else take n (alternative_calls key db models_to_try))"
proof -
  let ?b = "key_startswith key ''sk-or-''"
  obtain r1 w1 where f: "first_stage ?b key db net u w = (r1, w1)"
    by (cases "first_stage ?b key db net u w")
  have c1: "calls w1 = calls w @ [first_call ?b key db]"
    using first_stage_calls [of ?b key db net u w] f by simp
  obtain r2 w2 where a: "try_alternative_openai_api key db net u w1 = (r2, w2)"
    by (cases "try_alternative_openai_api key db net u w1")
  from try_alternative_calls [of key db net u w1] a obtain n where
    n: "1 \<le> n" "n \<le> 3" and c2: "calls w2 = calls w1 @ take n (alternative_calls key db models_to_try)"
    by auto
  show ?thesis
  proof (cases "success r1")
    case True
    then have "new_calls w (snd (get_ai_response_external_only key db net u w)) = [first_call ?b key db]"
      using f c1 by (simp add: dispatch_configured [OF assms] new_calls_def)
    then show ?thesis using True f by (auto intro!: exI [of _ 1])
  next
    case False
    have "calls (snd (get_ai_response_external_only key db net u w)) =
            calls w @ first_call ?b key db # take n (alternative_calls key db models_to_try)"
      using False f a c1 c2
      by (simp add: dispatch_configured [OF assms] error_occurred_send_def)
    then have "new_calls w (snd (get_ai_response_external_only key db net u w)) =
        first_call ?b key db # take n (alternative_calls key db models_to_try)"
      by (simp add: new_calls_def)
    then show ?thesis using False f n by auto
  qed
qed

lemma alternative_calls_url:
  "c \<in> set (take n (alternative_calls key db ms)) \<Longrightarrow>
     stage_of c = Alternative \<and> url (req c) = openai_url"
  by (auto simp: alternative_calls_def openai_request_def dest!: in_set_takeD)

lemma urls_differ: "openai_url \<noteq> openrouter_url"
  by (simp add: openai_url_def openrouter_url_def)

lemma first_request_carries: "carries (history db) (first_request b key db)"
  by (simp add: carries_def history_def first_request_def openai_request_def
      openrouter_request_def messages_for_gpt_def Message_objects_all_def)

lemma alternative_calls_carry:
  "c \<in> set (take n (alternative_calls key db ms)) \<Longrightarrow> carries (history db) (req c)"
  by (auto simp: alternative_calls_def carries_def history_def openai_request_def
      messages_for_gpt_def Message_objects_all_def dest!: in_set_takeD)

lemma dispatch_calls_carry:
  "c \<in> set (new_calls w (snd (get_ai_response_external_only key db net u w))) \<Longrightarrow>
     carries (history db) (req c)"
proof (cases "truthy key")
  case False
  assume "c \<in> set (new_calls w (snd (get_ai_response_external_only key db net u w)))"
  then show ?thesis using False
    by (simp add: dispatch_unconfigured new_calls_def error_occurred_send_def)
next
  case True
  assume c: "c \<in> set (new_calls w (snd (get_ai_response_external_only key db net u w)))"
  from dispatch_calls [OF True, of w db net u] obtain n where
    "new_calls w (snd (get_ai_response_external_only key db net u w)) =
       first_call (key_startswith key ''sk-or-'') key db #
       (if success (fst (first_stage (key_startswith key ''sk-or-'') key db net u w)) then []
        else take n (alternative_calls key db models_to_try))"
    by blast
  with c consider "c = first_call (key_startswith key ''sk-or-'') key db"
    | "c \<in> set (take n (alternative_calls key db models_to_try))"
    by (auto split: if_splits)
  then show ?thesis
  proof cases
    case 1
    then show ?thesis using first_request_carries by (simp add: first_call_def)
  next
    case 2
    then show ?thesis by (rule alternative_calls_carry)
  qed
qed

lemma chat_api_world:
  assumes "truthy key" and "ChatRequestSerializer data = Some v"
  shows "snd (snd (chat_api key db net data w)) =
           snd (get_ai_response_external_only key
                  \<lparr>rows = rows db @ [\<lparr>msg_id = next_id db, role = ''user'', content = v\<rparr>],
                   next_id = Suc (next_id db)\<rparr> net v w)"
  using assms validated_is_saved [OF assms(2)]
  by (simp add: chat_api_def Message_objects_create_def Let_def
      split: prod.split result.split sum.split)

text \<open>
  Which failures of the first stage are announced. A failure read off the status code
  sends one notification with the kind and the message of the failure; a failure that
  comes from an exception sends none, and neither does the alternative-model stage.
\<close>

lemma status_failure_notified:
  assumes "net (map req (calls w)) (first_request b key db) = Returned resp"
    and "status_code resp \<noteq> 200"
  shows "\<exists>k m. fst (first_stage b key db net u w) = Failure m (Some k) \<and>
           new_signals w (snd (first_stage b key db net u w)) =
             [\<lparr>sender = (if b then ''try_openrouter_api'' else ''try_openai_api''),
               error_type = k, error_message = m\<rparr>]"
  using assms
  by (cases b)
     (simp_all add: first_stage_def first_request_def try_openai_api_def try_openrouter_api_def
        requests_post_def error_occurred_send_def new_signals_def Let_def)

lemma exception_failure_silent:
  assumes "net (map req (calls w)) (first_request b key db) = Raised e"
  shows "\<not> success (fst (first_stage b key db net u w)) \<and>
         new_signals w (snd (first_stage b key db net u w)) = []"
  using assms
  by (cases b; cases e)
     (simp_all add: first_stage_def first_request_def try_openai_api_def try_openrouter_api_def
        requests_post_def new_signals_def)

text \<open>
  Repeated calls. The first model of the alternative list is the model of the Primary
  stage, at the same endpoint: when the Primary stage fails, its request is sent again.
  For a key that starts with \<^verbatim>\<open>sk-or-\<close> the calls differ in endpoint or model.
\<close>

lemma primary_failure_repeats:
  assumes "truthy key" and "\<not> key_startswith key ''sk-or-''"
    and "\<not> success (fst (try_openai_api key db net u w))"
  shows "\<exists>rest. map req (new_calls w (snd (get_ai_response_external_only key db net u w))) =
           openai_request key db ''gpt-3.5-turbo'' # openai_request key db ''gpt-3.5-turbo'' # rest"
proof -
  from dispatch_calls [OF assms(1), of w db net u] assms(2,3) obtain n where
    n: "1 \<le> n" and
    nc: "new_calls w (snd (get_ai_response_external_only key db net u w)) =
       first_call False key db # take n (alternative_calls key db models_to_try)"
    by (auto simp: first_stage_def)
  from n obtain k where k: "n = Suc k" by (cases n) auto
  show ?thesis
    by (simp add: nc k alternative_calls_def models_to_try_def first_call_def first_request_def)
qed

lemma openrouter_calls_distinct:
  assumes "truthy key" and "key_startswith key ''sk-or-''"
  shows "distinct (map (\<lambda>c. (url (req c), model (req c)))
           (new_calls w (snd (get_ai_response_external_only key db net u w))))"
proof -
  from dispatch_calls [OF assms(1), of w db net u] assms(2) obtain n where
    nc: "new_calls w (snd (get_ai_response_external_only key db net u w)) =
       first_call True key db #
       (if success (fst (first_stage True key db net u w)) then []
        else take n (alternative_calls key db models_to_try))"
    by auto
  have d: "distinct (map (\<lambda>c. (url (req c), model (req c)))
             (first_call True key db # alternative_calls key db models_to_try))"
    by (simp add: alternative_calls_def models_to_try_def first_call_def first_request_def
        openai_request_def openrouter_request_def openai_url_def openrouter_url_def)
  have "distinct (map (\<lambda>c. (url (req c), model (req c)))
             (first_call True key db # take n (alternative_calls key db models_to_try)))"
    using d
    by (metis (no_types, lifting) distinct.simps(2) distinct_take list.simps(9) set_take_subset
        subsetD take_map)
  then show ?thesis by (simp add: nc)
qed

subsection \<open>The claims\<close>



text \<open>
  C2. For a configured (non-empty) key the stages follow the prefix rule. If the key does
  not start with \<^verbatim>\<open>sk-or-\<close>, the Primary stage is attempted and, when it fails, the
  alternative-model stage (one to three calls); the OpenRouter stage is never attempted.
  If the key starts with \<^verbatim>\<open>sk-or-\<close>, the OpenRouter stage is attempted and, when it
  fails, the alternative-model stage still is. Only the OpenRouter stage calls the
  OpenRouter endpoint; every other call goes to the Primary endpoint.
\<close>

theorem provider_selection:
  assumes "truthy key"
  shows "(\<not> key_startswith key ''sk-or-'' \<longrightarrow>
            OpenRouter \<notin> set (stages_attempted key db net u w) \<and>
            (if success (fst (try_openai_api key db net u w))
             then stages_attempted key db net u w = [Primary]
             else \<exists>n. 1 \<le> n \<and> n \<le> 3 \<and>
                    stages_attempted key db net u w = Primary # replicate n Alternative))
       \<and> (key_startswith key ''sk-or-'' \<longrightarrow>
            Primary \<notin> set (stages_attempted key db net u w) \<and>
            (if success (fst (try_openrouter_api key db net u w))
             then stages_attempted key db net u w = [OpenRouter]
             else \<exists>n. 1 \<le> n \<and> n \<le> 3 \<and>
                    stages_attempted key db net u w = OpenRouter # replicate n Alternative))
       \<and> (\<forall>c \<in> set (new_calls w (snd (get_ai_response_external_only key db net u w))).
            (url (req c) = openrouter_url) = (stage_of c = OpenRouter) \<and>
            (url (req c) = openai_url) = (stage_of c \<noteq> OpenRouter))"
proof -
  let ?b = "key_startswith key ''sk-or-''"
  from dispatch_calls [OF assms, of w db net u] obtain n where
    n: "1 \<le> n" "n \<le> 3" and
    nc: "new_calls w (snd (get_ai_response_external_only key db net u w)) =
       first_call ?b key db #
       (if success (fst (first_stage ?b key db net u w)) then []
        else take n (alternative_calls key db models_to_try))"
    by blast
  have st: "stages_attempted key db net u w =
       (if ?b then OpenRouter else Primary) #
       (if success (fst (first_stage ?b key db net u w)) then [] else replicate n Alternative)"
    using n by (simp add: stages_attempted_def nc first_call_def alternative_calls_stages
        models_to_try_def)
  have p1: "\<not> ?b \<longrightarrow>
            OpenRouter \<notin> set (stages_attempted key db net u w) \<and>
            (if success (fst (try_openai_api key db net u w))
             then stages_attempted key db net u w = [Primary]
             else \<exists>n. 1 \<le> n \<and> n \<le> 3 \<and>
                    stages_attempted key db net u w = Primary # replicate n Alternative)"
    using n by (auto simp: st first_stage_def)
  have p2: "?b \<longrightarrow>
            Primary \<notin> set (stages_attempted key db net u w) \<and>
            (if success (fst (try_openrouter_api key db net u w))
             then stages_attempted key db net u w = [OpenRouter]
             else \<exists>n. 1 \<le> n \<and> n \<le> 3 \<and>
                    stages_attempted key db net u w = OpenRouter # replicate n Alternative)"
    using n by (auto simp: st first_stage_def)
  have p3: "\<forall>c \<in> set (new_calls w (snd (get_ai_response_external_only key db net u w))).
            (url (req c) = openrouter_url) = (stage_of c = OpenRouter) \<and>
            (url (req c) = openai_url) = (stage_of c \<noteq> OpenRouter)"
  proof
    fix c assume "c \<in> set (new_calls w (snd (get_ai_response_external_only key db net u w)))"
    then consider "c = first_call ?b key db"
      | "c \<in> set (take n (alternative_calls key db models_to_try))"
      unfolding nc by (auto split: if_splits)
    then show "(url (req c) = openrouter_url) = (stage_of c = OpenRouter) \<and>
            (url (req c) = openai_url) = (stage_of c \<noteq> OpenRouter)"
    proof cases
      case 1
      then show ?thesis using urls_differ
        by (auto simp: first_call_def first_request_def openai_request_def openrouter_request_def)
    next
      case 2
      from alternative_calls_url [OF this] show ?thesis using urls_differ by auto
    qed
  qed
  from p1 p2 p3 show ?thesis by blast
qed

theorem provider_selection_witness:
  "truthy (Some ''sk-test123'') \<and> \<not> key_startswith (Some ''sk-test123'') ''sk-or-''
   \<and> stages_attempted (Some ''sk-test123'') tort_store (failing_first 2 ''A tort is...'')
        ''What is a tort?'' init_world = [Primary, Alternative, Alternative]
   \<and> truthy (Some ''sk-or-v1-abc'') \<and> key_startswith (Some ''sk-or-v1-abc'') ''sk-or-''
   \<and> stages_attempted (Some ''sk-or-v1-abc'') tort_store (failing_first 1 ''A tort is...'')
        ''What is a tort?'' init_world = [OpenRouter, Alternative]"
proof -
  have t1: "truthy (Some ''sk-test123'')" and t2: "truthy (Some ''sk-or-v1-abc'')" by simp_all
  have k1: "\<not> key_startswith (Some ''sk-test123'') ''sk-or-''"
    and k2: "key_startswith (Some ''sk-or-v1-abc'') ''sk-or-''"
    by (simp_all add: startswith_def)
  have f1: "\<not> success (fst (try_openai_api (Some ''sk-test123'') tort_store
               (failing_first 2 ''A tort is...'') ''What is a tort?'' init_world))"
    by (simp add: try_openai_api_def requests_post_def failing_first_def http_def init_world_def Let_def)
  have f2: "\<not> success (fst (try_openrouter_api (Some ''sk-or-v1-abc'') tort_store
               (failing_first 1 ''A tort is...'') ''What is a tort?'' init_world))"
    by (simp add: try_openrouter_api_def requests_post_def failing_first_def http_def init_world_def Let_def)
  have e1: "stages_attempted (Some ''sk-test123'') tort_store (failing_first 2 ''A tort is...'')
        ''What is a tort?'' init_world = [Primary, Alternative, Alternative]"
    by code_simp
  have e2: "stages_attempted (Some ''sk-or-v1-abc'') tort_store (failing_first 1 ''A tort is...'')
        ''What is a tort?'' init_world = [OpenRouter, Alternative]"
    by code_simp
  show ?thesis
    using provider_selection [OF t1, of tort_store "failing_first 2 ''A tort is...''"
        "''What is a tort?''" init_world]
      provider_selection [OF t2, of tort_store "failing_first 1 ''A tort is...''"
        "''What is a tort?''" init_world]
      t1 t2 k1 k2 f1 f2 e1 e2
    by simp
qed

text \<open>
  C3, as the code has it. Dispatch stops at the first success. When the first stage
  attempted for a configured key (Primary, or OpenRouter for a key that starts with
  \<^verbatim>\<open>sk-or-\<close>) gets an HTTP 200 response from which the text of the first completion
  choice can be read, the outcome is Success with that reply, the stage's call is the
  only one made, and the alternative-model stage is not invoked.
\<close>

theorem first_success_stops:
  assumes "truthy key"
    and "net (map req (calls w)) (first_request (key_startswith key ''sk-or-'') key db) = Returned resp"
    and "status_code resp = 200"
    and "first_choice_content resp = Inr t"
  shows "get_ai_response_external_only key db net u w =
           (Success t, w\<lparr>calls := calls w @ [first_call (key_startswith key ''sk-or-'') key db]\<rparr>)
         \<and> stages_attempted key db net u w =
             [if key_startswith key ''sk-or-'' then OpenRouter else Primary]
         \<and> Alternative \<notin> set (stages_attempted key db net u w)"
proof -
  let ?b = "key_startswith key ''sk-or-''"
  have "first_stage ?b key db net u w = (Success t, w\<lparr>calls := calls w @ [first_call ?b key db]\<rparr>)"
  proof (cases ?b)
    case True
    then show ?thesis using assms(2-4)
      by (simp add: first_stage_def first_request_def first_call_def try_openrouter_api_def
          requests_post_def)
  next
    case False
    then show ?thesis using assms(2-4)
      by (simp add: first_stage_def first_request_def first_call_def try_openai_api_def
          requests_post_def)
  qed
  then have d: "get_ai_response_external_only key db net u w =
           (Success t, w\<lparr>calls := calls w @ [first_call ?b key db]\<rparr>)"
    by (simp add: dispatch_configured [OF assms(1)])
  then show ?thesis
    by (simp add: stages_attempted_def new_calls_def first_call_def)
qed

theorem first_success_stops_witness:
  "truthy (Some ''sk-test123'')
   \<and> get_ai_response_external_only (Some ''sk-test123'') tort_store
        (always (ok_reply ''A tort is...'')) ''What is a tort?'' init_world
      = (Success ''A tort is...'',
         \<lparr>calls = [first_call False (Some ''sk-test123'') tort_store], signals = []\<rparr>)
   \<and> truthy (Some ''sk-or-v1-abc'')
   \<and> stages_attempted (Some ''sk-or-v1-abc'') tort_store
        (always (ok_reply ''A tort is...'')) ''What is a tort?'' init_world = [OpenRouter]"
proof -
  let ?r = "\<lparr>status_code = 200, resp_text = ''A tort is...'',
             first_choice_content = Inr ''A tort is...''\<rparr>"
  have t1: "truthy (Some ''sk-test123'')" and t2: "truthy (Some ''sk-or-v1-abc'')" by simp_all
  have k1: "\<not> key_startswith (Some ''sk-test123'') ''sk-or-''"
    and k2: "key_startswith (Some ''sk-or-v1-abc'') ''sk-or-''"
    by (simp_all add: startswith_def)
  have n: "\<And>h r. always (ok_reply ''A tort is...'') h r = Returned ?r"
    by (simp add: always_def ok_reply_def http_def)
  have s: "status_code ?r = 200" and c: "first_choice_content ?r = Inr ''A tort is...''"
    by simp_all
  show ?thesis
    using first_success_stops [where key = "Some ''sk-test123''" and db = tort_store
        and net = "always (ok_reply ''A tort is...'')" and w = init_world
        and u = "''What is a tort?''" and resp = ?r and t = "''A tort is...''"]
      first_success_stops [where key = "Some ''sk-or-v1-abc''" and db = tort_store
        and net = "always (ok_reply ''A tort is...'')" and w = init_world
        and u = "''What is a tort?''" and resp = ?r and t = "''A tort is...''"]
      t1 t2 k1 k2 n
    by (simp add: init_world_def)
qed

text \<open>
  C3 with HTTP 200 alone fails. The Primary stage gets a 200 response whose body has no
  completion choice: reading the reply raises, the handler turns it into a failure, the
  dispatcher goes on to the alternative-model stage, and the outcome is
  \<^verbatim>\<open>all_apis_failed\<close> after four calls.
\<close>

theorem first_stage_200_counterexample:
  "always (http 200 ''{}'' (Inl (OtherException ''choices''))) []
      (first_request False (Some ''sk-test123'') tort_store)
     = Returned \<lparr>status_code = 200, resp_text = ''{}'',
                 first_choice_content = Inl (OtherException ''choices'')\<rparr>
   \<and> fst (get_ai_response_external_only (Some ''sk-test123'') tort_store
          (always (http 200 ''{}'' (Inl (OtherException ''choices'')))) ''What is a tort?''
          init_world)
       = Failure all_failed_msg (Some ''all_apis_failed'')
   \<and> stages_attempted (Some ''sk-test123'') tort_store
          (always (http 200 ''{}'' (Inl (OtherException ''choices'')))) ''What is a tort?''
          init_world
       = [Primary, Alternative, Alternative, Alternative]"
proof -
  have a: "always (http 200 ''{}'' (Inl (OtherException ''choices''))) []
      (first_request False (Some ''sk-test123'') tort_store)
     = Returned \<lparr>status_code = 200, resp_text = ''{}'',
                 first_choice_content = Inl (OtherException ''choices'')\<rparr>"
    by (simp add: always_def http_def)
  have b: "fst (get_ai_response_external_only (Some ''sk-test123'') tort_store
          (always (http 200 ''{}'' (Inl (OtherException ''choices'')))) ''What is a tort?''
          init_world)
       = Failure all_failed_msg (Some ''all_apis_failed'')"
    by code_simp
  have c: "stages_attempted (Some ''sk-test123'') tort_store
          (always (http 200 ''{}'' (Inl (OtherException ''choices'')))) ''What is a tort?''
          init_world
       = [Primary, Alternative, Alternative, Alternative]"
    by code_simp
  from a b c show ?thesis by simp
qed

text \<open>
  C4, as the code has it. The answer to the one call of the Primary stage (\<open>b\<close> false)
  or the OpenRouter stage (\<open>b\<close> true) is classified as follows. HTTP 200 gives Success
  with the text of the first completion choice when that text can be read from the
  body; 401 gives \<^verbatim>\<open>auth_error\<close>; 429 gives \<^verbatim>\<open>rate_limit\<close>; any other status gives
  \<^verbatim>\<open>api_error\<close> with a message made of the status code and the raw body; a timeout gives
  \<^verbatim>\<open>timeout\<close>; another failure of the transport gives \<^verbatim>\<open>network_error\<close>; any other
  exception gives \<^verbatim>\<open>api_error\<close>. An exception raised while the reply is read from a 200
  response is caught by the same handlers and classified by its class: \<^verbatim>\<open>timeout\<close>,
  \<^verbatim>\<open>network_error\<close> for any other exception of the requests library (its JSON decoding
  error is one), \<^verbatim>\<open>api_error\<close> for the rest. The stage always returns a success or a
  failure of one of these five kinds.
\<close>

theorem response_classification:
  assumes "net (map req (calls w)) (first_request b key db) = p"
  shows "(\<forall>resp t. p = Returned resp \<and> status_code resp = 200 \<and> first_choice_content resp = Inr t \<longrightarrow>
            fst (first_stage b key db net u w) = Success t)
       \<and> (\<forall>resp. p = Returned resp \<and> status_code resp = 401 \<longrightarrow>
            \<not> success (fst (first_stage b key db net u w)) \<and>
            kind_of (fst (first_stage b key db net u w)) = Some ''auth_error'')
       \<and> (\<forall>resp. p = Returned resp \<and> status_code resp = 429 \<longrightarrow>
            \<not> success (fst (first_stage b key db net u w)) \<and>
            kind_of (fst (first_stage b key db net u w)) = Some ''rate_limit'')
       \<and> (\<forall>resp. p = Returned resp \<and> status_code resp \<notin> {200, 401, 429} \<longrightarrow>
            fst (first_stage b key db net u w) =
              Failure (provider_name b @ '' API Error (Status '' @ str_int (status_code resp)
                         @ ''): '' @ resp_text resp)
                      (Some ''api_error''))
       \<and> (\<forall>s. p = Raised (Timeout s) \<longrightarrow>
            \<not> success (fst (first_stage b key db net u w)) \<and>
            kind_of (fst (first_stage b key db net u w)) = Some ''timeout'')
       \<and> (\<forall>s. p = Raised (RequestException s) \<longrightarrow>
            \<not> success (fst (first_stage b key db net u w)) \<and>
            kind_of (fst (first_stage b key db net u w)) = Some ''network_error'')
       \<and> (\<forall>s. p = Raised (OtherException s) \<longrightarrow>
            \<not> success (fst (first_stage b key db net u w)) \<and>
            kind_of (fst (first_stage b key db net u w)) = Some ''api_error'')
       \<and> (\<forall>resp e. p = Returned resp \<and> status_code resp = 200 \<and> first_choice_content resp = Inl e \<longrightarrow>
            \<not> success (fst (first_stage b key db net u w)) \<and>
            kind_of (fst (first_stage b key db net u w)) = Some (except_kind e))
       \<and> (success (fst (first_stage b key db net u w)) \<or>
          kind_of (fst (first_stage b key db net u w)) \<in>
            {Some ''auth_error'', Some ''rate_limit'', Some ''api_error'', Some ''timeout'',
             Some ''network_error''})"
proof (cases b)
  case True
  have ek: "\<And>e. \<not> success (openrouter_except e) \<and> kind_of (openrouter_except e) = Some (except_kind e)"
    by (case_tac e) simp_all
  have ek': "\<And>e. except_kind e \<in> {''timeout'', ''network_error'', ''api_error''}"
    by (case_tac e) simp_all
  show ?thesis
  proof (cases p)
    case (Raised e)
    then show ?thesis using True assms ek [of e]
      by (cases e) (simp_all add: first_stage_def first_request_def try_openrouter_api_def requests_post_def)
  next
    case (Returned resp)
    then show ?thesis using True assms ek ek'
      by (auto simp add: first_stage_def first_request_def try_openrouter_api_def requests_post_def
          provider_name_def Let_def split: sum.split)
  qed
next
  case False
  have ek: "\<And>e. \<not> success (openai_except e) \<and> kind_of (openai_except e) = Some (except_kind e)"
    by (case_tac e) simp_all
  have ek': "\<And>e. except_kind e \<in> {''timeout'', ''network_error'', ''api_error''}"
    by (case_tac e) simp_all
  show ?thesis
  proof (cases p)
    case (Raised e)
    then show ?thesis using False assms ek [of e]
      by (cases e) (simp_all add: first_stage_def first_request_def try_openai_api_def requests_post_def)
  next
    case (Returned resp)
    then show ?thesis using False assms ek ek'
      by (auto simp add: first_stage_def first_request_def try_openai_api_def requests_post_def
          provider_name_def Let_def split: sum.split)
  qed
qed

theorem response_classification_witness:
  "fst (first_stage False (Some ''sk-test123'') tort_store (always (ok_reply ''A tort is...''))
          ''What is a tort?'' init_world) = Success ''A tort is...''
   \<and> kind_of (fst (first_stage False (Some ''sk-test123'') tort_store
          (always (http 401 ''denied'' (Inl (OtherException ''denied''))))
          ''What is a tort?'' init_world)) = Some ''auth_error''
   \<and> kind_of (fst (first_stage True (Some ''sk-or-v1-abc'') tort_store
          (always (http 429 ''slow down'' (Inl (OtherException ''slow down''))))
          ''What is a tort?'' init_world)) = Some ''rate_limit''
   \<and> fst (first_stage True (Some ''sk-or-v1-abc'') tort_store
          (always (http 500 ''boom'' (Inl (OtherException ''boom''))))
          ''What is a tort?'' init_world)
       = Failure ''OpenRouter API Error (Status 500): boom'' (Some ''api_error'')
   \<and> kind_of (fst (first_stage False (Some ''sk-test123'') tort_store
          (always (Raised (Timeout ''read timed out''))) ''What is a tort?'' init_world))
       = Some ''timeout''
   \<and> kind_of (fst (first_stage False (Some ''sk-test123'') tort_store
          (always (Raised (RequestException ''connection reset''))) ''What is a tort?'' init_world))
       = Some ''network_error''
   \<and> kind_of (fst (first_stage True (Some ''sk-or-v1-abc'') tort_store
          (always (Raised (OtherException ''unexpected''))) ''What is a tort?'' init_world))
       = Some ''api_error''
   \<and> kind_of (fst (first_stage False (Some ''sk-test123'') tort_store
          (always (http 200 ''{}'' (Inl (OtherException ''choices''))))
          ''What is a tort?'' init_world)) = Some ''api_error''
   \<and> kind_of (fst (first_stage True (Some ''sk-or-v1-abc'') tort_store
          (always (http 200 ''<html>'' (Inl (RequestException ''Expecting value''))))
          ''What is a tort?'' init_world)) = Some ''network_error''
   \<and> kind_of (fst (first_stage False (Some ''sk-test123'') tort_store
          (always (http 200 ''late'' (Inl (Timeout ''read timed out''))))
          ''What is a tort?'' init_world)) = Some ''timeout''"
proof -
  have s500: "str_int 500 = ''500''" by code_simp
  note inst = response_classification [where w = init_world and db = tort_store
      and u = "''What is a tort?''"]
  show ?thesis
    using
      inst [where b = False and key = "Some ''sk-test123''"
        and net = "always (ok_reply ''A tort is...'')" and p = "ok_reply ''A tort is...''"]
      inst [where b = False and key = "Some ''sk-test123''"
        and net = "always (http 401 ''denied'' (Inl (OtherException ''denied'')))"
        and p = "http 401 ''denied'' (Inl (OtherException ''denied''))"]
      inst [where b = True and key = "Some ''sk-or-v1-abc''"
        and net = "always (http 429 ''slow down'' (Inl (OtherException ''slow down'')))"
        and p = "http 429 ''slow down'' (Inl (OtherException ''slow down''))"]
      inst [where b = True and key = "Some ''sk-or-v1-abc''"
        and net = "always (http 500 ''boom'' (Inl (OtherException ''boom'')))"
        and p = "http 500 ''boom'' (Inl (OtherException ''boom''))"]
      inst [where b = False and key = "Some ''sk-test123''"
        and net = "always (Raised (Timeout ''read timed out''))"
        and p = "Raised (Timeout ''read timed out'')"]
      inst [where b = False and key = "Some ''sk-test123''"
        and net = "always (Raised (RequestException ''connection reset''))"
        and p = "Raised (RequestException ''connection reset'')"]
      inst [where b = True and key = "Some ''sk-or-v1-abc''"
        and net = "always (Raised (OtherException ''unexpected''))"
        and p = "Raised (OtherException ''unexpected'')"]
      inst [where b = False and key = "Some ''sk-test123''"
        and net = "always (http 200 ''{}'' (Inl (OtherException ''choices'')))"
        and p = "http 200 ''{}'' (Inl (OtherException ''choices''))"]
      inst [where b = True and key = "Some ''sk-or-v1-abc''"
        and net = "always (http 200 ''<html>'' (Inl (RequestException ''Expecting value'')))"
        and p = "http 200 ''<html>'' (Inl (RequestException ''Expecting value''))"]
      inst [where b = False and key = "Some ''sk-test123''"
        and net = "always (http 200 ''late'' (Inl (Timeout ''read timed out'')))"
        and p = "http 200 ''late'' (Inl (Timeout ''read timed out''))"]
    by (simp add: always_def ok_reply_def http_def provider_name_def s500)
qed

text \<open>
  C4 as worded fails on a 200 response whose body is not JSON: reading the reply raises
  the JSON decoding error of the requests library, a \<^verbatim>\<open>RequestException\<close>, and the
  Primary stage returns \<^verbatim>\<open>network_error\<close>, neither a success nor \<^verbatim>\<open>api_error\<close>.
\<close>

theorem classification_200_counterexample:
  "always (http 200 ''<html>''
             (Inl (RequestException ''Expecting value: line 1 column 1 (char 0)''))) []
      (first_request False (Some ''sk-test123'') tort_store)
     = Returned \<lparr>status_code = 200, resp_text = ''<html>'',
          first_choice_content =
            Inl (RequestException ''Expecting value: line 1 column 1 (char 0)'')\<rparr>
   \<and> fst (try_openai_api (Some ''sk-test123'') tort_store
          (always (http 200 ''<html>''
             (Inl (RequestException ''Expecting value: line 1 column 1 (char 0)''))))
          ''What is a tort?'' init_world)
       = Failure ''OpenAI API network error: Expecting value: line 1 column 1 (char 0)''
           (Some ''network_error'')"
  by (simp add: always_def http_def try_openai_api_def requests_post_def init_world_def)

text \<open>
  C5. When every stage the dispatcher attempts fails, the outcome is the failure
  \<^verbatim>\<open>all_apis_failed\<close> with one fixed message, whatever errors the stages produced; it is
  also the last notification sent. Otherwise the outcome is a success. So the failure of
  a single stage is never what the caller receives.
\<close>

theorem all_stages_failed:
  "(all_stages_fail key db net u w \<longrightarrow>
      fst (get_ai_response_external_only key db net u w) =
        Failure (''All external AI services are currently unavailable. '' @
                 ''Please check your API key configuration or try again later.'')
                (Some ''all_apis_failed'')
      \<and> last (signals (snd (get_ai_response_external_only key db net u w))) =
          \<lparr>sender = ''get_ai_response_external_only'', error_type = ''all_apis_failed'',
           error_message = all_failed_msg\<rparr>)
   \<and> (\<not> all_stages_fail key db net u w \<longrightarrow>
        success (fst (get_ai_response_external_only key db net u w)))"
proof (cases "truthy key")
  case False
  then show ?thesis
    by (simp add: all_stages_fail_def dispatch_unconfigured all_failed_msg_def
        error_occurred_send_def)
next
  case True
  then show ?thesis
    by (simp add: all_stages_fail_def dispatch_configured all_failed_msg_def
        error_occurred_send_def case_prod_beta)
qed

theorem all_stages_failed_witness:
  "all_stages_fail (Some ''sk-test123'') tort_store (always (Raised (Timeout ''timed out'')))
       ''What is a tort?'' init_world
   \<and> all_stages_fail (Some ''sk-or-v1-abc'') tort_store (always (http 401 ''denied'' (Inl (OtherException ''denied''))))
       ''What is a tort?'' init_world
   \<and> fst (get_ai_response_external_only (Some ''sk-test123'') tort_store
        (always (Raised (Timeout ''timed out''))) ''What is a tort?'' init_world)
     = fst (get_ai_response_external_only (Some ''sk-or-v1-abc'') tort_store
        (always (http 401 ''denied'' (Inl (OtherException ''denied'')))) ''What is a tort?'' init_world)
   \<and> \<not> all_stages_fail (Some ''sk-test123'') tort_store (failing_first 2 ''A tort is...'')
       ''What is a tort?'' init_world
   \<and> success (fst (get_ai_response_external_only (Some ''sk-test123'') tort_store
        (failing_first 2 ''A tort is...'') ''What is a tort?'' init_world))"
proof -
  have a1: "all_stages_fail (Some ''sk-test123'') tort_store (always (Raised (Timeout ''timed out'')))
       ''What is a tort?'' init_world"
    by code_simp
  have a2: "all_stages_fail (Some ''sk-or-v1-abc'') tort_store
       (always (http 401 ''denied'' (Inl (OtherException ''denied''))))
       ''What is a tort?'' init_world"
    by code_simp
  have a3: "\<not> all_stages_fail (Some ''sk-test123'') tort_store (failing_first 2 ''A tort is...'')
       ''What is a tort?'' init_world"
    by code_simp
  show ?thesis
    using all_stages_failed [of "Some ''sk-test123''" tort_store
        "always (Raised (Timeout ''timed out''))" "''What is a tort?''" init_world]
      all_stages_failed [of "Some ''sk-or-v1-abc''" tort_store
        "always (http 401 ''denied'' (Inl (OtherException ''denied'')))" "''What is a tort?''" init_world]
      all_stages_failed [of "Some ''sk-test123''" tort_store
        "failing_first 2 ''A tort is...''" "''What is a tort?''" init_world]
      a1 a2 a3
    by simp
qed

text \<open>
  C6 at a failing input: the Primary stage runs into a timeout. It returns the failure
  \<^verbatim>\<open>timeout\<close> after its one call, and the log of notifications stays empty, where the
  claim has exactly one notification for every kind of failure of this stage.
\<close>

theorem timeout_not_notified:
  "try_openai_api (Some ''sk-test123'') tort_store (always (Raised (Timeout ''read timed out'')))
      ''What is a tort?'' init_world
   = (Failure ''OpenAI API request timed out. Please try again.'' (Some ''timeout''),
      \<lparr>calls = [first_call False (Some ''sk-test123'') tort_store], signals = []\<rparr>)"
  by (simp add: try_openai_api_def requests_post_def always_def init_world_def first_call_def
      first_request_def)

text \<open>
  C7, as the code has it. Every outbound request of a dispatch, and of each of the three
  attempt functions, carries the system prompt followed by the stored turns in their
  stored (chronological) order, with \<^verbatim>\<open>max_tokens\<close> 500, \<^verbatim>\<open>temperature\<close> 0.2 and a
  timeout of 30; the Primary and the OpenRouter stage send exactly one request. Through
  \<^verbatim>\<open>chat_api\<close> the turns end with the user turn just saved. The system prompt is the text
  \<^verbatim>\<open>You are a legal assistant. Provide general legal information, but always say: 'This is
  not legal advice.'\<close> and not the wording of the spec.
\<close>

theorem request_shape:
  "(\<forall>c \<in> set (new_calls w (snd (get_ai_response_external_only key db net u w))).
      carries (history db) (req c))
   \<and> (\<forall>c \<in> set (new_calls w (snd (try_openai_api key db net u w))).
        carries (history db) (req c))
   \<and> (\<forall>c \<in> set (new_calls w (snd (try_openrouter_api key db net u w))).
        carries (history db) (req c))
   \<and> (\<forall>c \<in> set (new_calls w (snd (try_alternative_openai_api key db net u w))).
        carries (history db) (req c))
   \<and> length (new_calls w (snd (try_openai_api key db net u w))) = 1
   \<and> length (new_calls w (snd (try_openrouter_api key db net u w))) = 1
   \<and> (truthy key \<and> ChatRequestSerializer data = Some v \<longrightarrow>
        (\<forall>c \<in> set (new_calls w (snd (snd (chat_api key db net data w)))).
           carries (history db @ [(''user'', v)]) (req c)))
   \<and> system_prompt =
        (''system'',
         ''You are a legal assistant. Provide general legal information, but always say: ''
         @ [CHR 0x27] @ ''This is not legal advice.'' @ [CHR 0x27])"
proof -
  have a: "\<forall>c \<in> set (new_calls w (snd (get_ai_response_external_only key db net u w))).
      carries (history db) (req c)"
    using dispatch_calls_carry by blast
  have b: "\<forall>c \<in> set (new_calls w (snd (try_openai_api key db net u w))).
        carries (history db) (req c)"
    using first_request_carries [of db False key]
    by (simp add: new_calls_def try_openai_api_calls first_call_def)
  have c: "\<forall>c \<in> set (new_calls w (snd (try_openrouter_api key db net u w))).
        carries (history db) (req c)"
    using first_request_carries [of db True key]
    by (simp add: new_calls_def try_openrouter_api_calls first_call_def)
  have d: "\<forall>c \<in> set (new_calls w (snd (try_alternative_openai_api key db net u w))).
        carries (history db) (req c)"
    using try_alternative_calls [of key db net u w] alternative_calls_carry
    by (auto simp: new_calls_def)
  have e: "length (new_calls w (snd (try_openai_api key db net u w))) = 1"
    "length (new_calls w (snd (try_openrouter_api key db net u w))) = 1"
    by (simp_all add: new_calls_def try_openai_api_calls try_openrouter_api_calls)
  have f: "truthy key \<and> ChatRequestSerializer data = Some v \<longrightarrow>
        (\<forall>c \<in> set (new_calls w (snd (snd (chat_api key db net data w)))).
           carries (history db @ [(''user'', v)]) (req c))"
  proof (intro impI ballI, elim conjE)
    fix c
    assume k: "truthy key" and v: "ChatRequestSerializer data = Some v"
      and c: "c \<in> set (new_calls w (snd (snd (chat_api key db net data w))))"
    let ?db1 = "\<lparr>rows = rows db @ [\<lparr>msg_id = next_id db, role = ''user'', content = v\<rparr>],
                   next_id = Suc (next_id db)\<rparr>"
    from c have "c \<in> set (new_calls w (snd (get_ai_response_external_only key ?db1 net v w)))"
      by (simp add: chat_api_world [OF k v])
    then have "carries (history ?db1) (req c)" by (rule dispatch_calls_carry)
    then show "carries (history db @ [(''user'', v)]) (req c)" by (simp add: history_def)
  qed
  have g: "system_prompt =
        (''system'',
         ''You are a legal assistant. Provide general legal information, but always say: ''
         @ [CHR 0x27] @ ''This is not legal advice.'' @ [CHR 0x27])"
    by (simp add: system_prompt_def)
  from a b c d e f g show ?thesis by blast
qed

theorem request_shape_witness:
  "truthy (Some ''sk-test123'')
   \<and> ChatRequestSerializer (Some ''  Is it a crime? '') = Some ''Is it a crime?''
   \<and> map stage_of (new_calls init_world (snd (snd (chat_api (Some ''sk-test123'') tort_store
        (failing_first 1 ''No.'') (Some ''  Is it a crime? '') init_world))))
      = [Primary, Alternative]
   \<and> carries [(''user'', ''What is a tort?''), (''user'', ''Is it a crime?'')]
        (openai_request (Some ''sk-test123'')
           \<lparr>rows = [\<lparr>msg_id = 1, role = ''user'', content = ''What is a tort?''\<rparr>,
                    \<lparr>msg_id = 2, role = ''user'', content = ''Is it a crime?''\<rparr>],
            next_id = 3\<rparr> ''gpt-3.5-turbo'')
   \<and> carries [(''user'', ''What is a tort?''), (''user'', ''Is it a crime?'')]
        (req (hd (new_calls init_world (snd (snd (chat_api (Some ''sk-test123'') tort_store
           (failing_first 1 ''No.'') (Some ''  Is it a crime? '') init_world))))))
   \<and> carries [(''user'', ''What is a tort?''), (''user'', ''Is it a crime?'')]
        (req (last (new_calls init_world (snd (snd (chat_api (Some ''sk-test123'') tort_store
           (failing_first 1 ''No.'') (Some ''  Is it a crime? '') init_world))))))"
proof -
  have t: "truthy (Some ''sk-test123'')" by simp
  have v: "ChatRequestSerializer (Some ''  Is it a crime? '') = Some ''Is it a crime?''"
    by (simp add: ChatRequestSerializer_def strip_def isspace_def)
  have s: "map stage_of (new_calls init_world (snd (snd (chat_api (Some ''sk-test123'') tort_store
        (failing_first 1 ''No.'') (Some ''  Is it a crime? '') init_world))))
      = [Primary, Alternative]"
    by code_simp
  have h: "history tort_store = [(''user'', ''What is a tort?'')]"
    by (simp add: history_def tort_store_def)
  have r: "carries [(''user'', ''What is a tort?''), (''user'', ''Is it a crime?'')]
        (openai_request (Some ''sk-test123'')
           \<lparr>rows = [\<lparr>msg_id = 1, role = ''user'', content = ''What is a tort?''\<rparr>,
                    \<lparr>msg_id = 2, role = ''user'', content = ''Is it a crime?''\<rparr>],
            next_id = 3\<rparr> ''gpt-3.5-turbo'')"
    using first_request_carries [of "\<lparr>rows = [\<lparr>msg_id = 1, role = ''user'', content = ''What is a tort?''\<rparr>,
                    \<lparr>msg_id = 2, role = ''user'', content = ''Is it a crime?''\<rparr>],
            next_id = 3\<rparr>" False "Some ''sk-test123''"]
    by (simp add: first_request_def history_def)
  let ?cs = "new_calls init_world (snd (snd (chat_api (Some ''sk-test123'') tort_store
        (failing_first 1 ''No.'') (Some ''  Is it a crime? '') init_world)))"
  have "?cs \<noteq> []" using s by auto
  then have m: "hd ?cs \<in> set ?cs" "last ?cs \<in> set ?cs" by simp_all
  show ?thesis
    using request_shape [where key = "Some ''sk-test123''" and db = tort_store
        and net = "failing_first 1 ''No.''" and data = "Some ''  Is it a crime? ''"
        and v = "''Is it a crime?''" and w = init_world] t v s h r m
    by simp
qed

text \<open>
  C7 as the spec words it fails on the system instruction: the first message of the
  request that the Primary stage sends for the one-turn store is not the spec's sentence.
\<close>

theorem system_instruction_counterexample:
  "messages (req (hd (calls (snd (try_openai_api (Some ''sk-test123'') tort_store
      (always (ok_reply ''A tort is...'')) ''What is a tort?'' init_world)))))
   \<noteq> [(''system'', spec_system_instruction), (''user'', ''What is a tort?'')]"
  by (simp add: try_openai_api_calls init_world_def first_call_def first_request_def
      openai_request_def messages_for_gpt_def system_prompt_def spec_system_instruction_def)

text \<open>
  C8. The alternative-model stage tries the models \<^verbatim>\<open>gpt-3.5-turbo\<close>, \<^verbatim>\<open>gpt-4\<close>,
  \<^verbatim>\<open>gpt-4-turbo-preview\<close> in this order against the Primary endpoint. A model whose
  response is HTTP 200 with a reply ends the loop with Success; a 401 or 429 response, any
  other response without a reply and any exception move on to the next model; the
  exhausted list gives the failure \<^verbatim>\<open>All OpenAI models failed\<close> with no error kind. So the
  stage returns the first reply of the list, after one call for each model up to it.
\<close>

theorem alternative_models:
  "try_alternative_openai_api key db net u w =
     (case first_reply net (map req (calls w))
             (map (openai_request key db) [''gpt-3.5-turbo'', ''gpt-4'', ''gpt-4-turbo-preview'']) of
        (res, n) \<Rightarrow>
          ((case res of Some t \<Rightarrow> Success t | None \<Rightarrow> Failure ''All OpenAI models failed'' None),
           w\<lparr>calls := calls w @
                take n (alternative_calls key db
                          [''gpt-3.5-turbo'', ''gpt-4'', ''gpt-4-turbo-preview''])\<rparr>))
   \<and> url (openai_request key db mdl) = openai_url \<and> model (openai_request key db mdl) = mdl
   \<and> try_models key db net (mdl # rest) w =
       (case reply_of (net (map req (calls w)) (openai_request key db mdl)) of
          Some t \<Rightarrow> (Success t, w\<lparr>calls := calls w @ alternative_calls key db [mdl]\<rparr>)
        | None \<Rightarrow>
            try_models key db net rest (w\<lparr>calls := calls w @ alternative_calls key db [mdl]\<rparr>))
   \<and> try_models key db net [] w = (Failure ''All OpenAI models failed'' None, w)
   \<and> reply_of (Returned \<lparr>status_code = 200, resp_text = body, first_choice_content = Inr t\<rparr>)
       = Some t
   \<and> reply_of (Returned \<lparr>status_code = 401, resp_text = body, first_choice_content = c\<rparr>) = None
   \<and> reply_of (Returned \<lparr>status_code = 429, resp_text = body, first_choice_content = c\<rparr>) = None
   \<and> reply_of (Returned \<lparr>status_code = 200, resp_text = body, first_choice_content = Inl e\<rparr>)
       = None
   \<and> reply_of (Raised e) = None
   \<and> signals (snd (try_alternative_openai_api key db net u w)) = signals w"
proof -
  have whole: "try_alternative_openai_api key db net u w =
     (case first_reply net (map req (calls w))
             (map (openai_request key db) [''gpt-3.5-turbo'', ''gpt-4'', ''gpt-4-turbo-preview'']) of
        (res, n) \<Rightarrow>
          ((case res of Some t \<Rightarrow> Success t | None \<Rightarrow> Failure ''All OpenAI models failed'' None),
           w\<lparr>calls := calls w @
                take n (alternative_calls key db
                          [''gpt-3.5-turbo'', ''gpt-4'', ''gpt-4-turbo-preview''])\<rparr>))"
    unfolding try_alternative_openai_api_def models_to_try_def
    by (rule try_models_first_reply)
  have step: "try_models key db net (mdl # rest) w =
       (case reply_of (net (map req (calls w)) (openai_request key db mdl)) of
          Some t \<Rightarrow> (Success t, w\<lparr>calls := calls w @ alternative_calls key db [mdl]\<rparr>)
        | None \<Rightarrow>
            try_models key db net rest (w\<lparr>calls := calls w @ alternative_calls key db [mdl]\<rparr>))"
    by (simp add: requests_post_def alternative_calls_def split: post_result.split sum.split)
  have sig: "signals (snd (try_alternative_openai_api key db net u w)) = signals w"
    by (simp add: try_alternative_openai_api_def try_models_signals)
  have rq: "url (openai_request key db mdl) = openai_url \<and> model (openai_request key db mdl) = mdl"
    by (simp add: openai_request_def)
  show ?thesis
    using whole step sig rq by simp
qed

theorem alternative_models_witness:
  "try_alternative_openai_api (Some ''sk-test123'') tort_store
      (scripted [http 401 ''denied'' (Inl (OtherException ''denied'')),
                 Raised (Timeout ''read timed out'')] (ok_reply ''A tort is...''))
      ''What is a tort?'' init_world
    = (Success ''A tort is...'',
       \<lparr>calls = alternative_calls (Some ''sk-test123'') tort_store
                  [''gpt-3.5-turbo'', ''gpt-4'', ''gpt-4-turbo-preview''],
        signals = []\<rparr>)
   \<and> try_alternative_openai_api (Some ''sk-test123'') tort_store
      (scripted [http 429 ''slow down'' (Inl (OtherException ''slow down'')),
                 ok_reply ''A tort is...''] (ok_reply ''never asked''))
      ''What is a tort?'' init_world
    = (Success ''A tort is...'',
       \<lparr>calls = alternative_calls (Some ''sk-test123'') tort_store [''gpt-3.5-turbo'', ''gpt-4''],
        signals = []\<rparr>)
   \<and> fst (try_alternative_openai_api (Some ''sk-test123'') tort_store
      (always (http 200 ''{}'' (Inl (OtherException ''choices'')))) ''What is a tort?'' init_world)
    = Failure ''All OpenAI models failed'' None"
proof -
  have f1: "first_reply
      (scripted [http 401 ''denied'' (Inl (OtherException ''denied'')),
                 Raised (Timeout ''read timed out'')] (ok_reply ''A tort is...''))
      [] (map (openai_request (Some ''sk-test123'') tort_store)
            [''gpt-3.5-turbo'', ''gpt-4'', ''gpt-4-turbo-preview'']) = (Some ''A tort is...'', 3)"
    by (simp add: scripted_def http_def ok_reply_def)
  have f2: "first_reply
      (scripted [http 429 ''slow down'' (Inl (OtherException ''slow down'')),
                 ok_reply ''A tort is...''] (ok_reply ''never asked''))
      [] (map (openai_request (Some ''sk-test123'') tort_store)
            [''gpt-3.5-turbo'', ''gpt-4'', ''gpt-4-turbo-preview'']) = (Some ''A tort is...'', 2)"
    by (simp add: scripted_def http_def ok_reply_def)
  have f3: "first_reply (always (http 200 ''{}'' (Inl (OtherException ''choices''))))
      [] (map (openai_request (Some ''sk-test123'') tort_store)
            [''gpt-3.5-turbo'', ''gpt-4'', ''gpt-4-turbo-preview'']) = (None, 3)"
    by (simp add: always_def http_def)
  show ?thesis
    using
      alternative_models [where key = "Some ''sk-test123''" and db = tort_store
        and u = "''What is a tort?''" and w = init_world
        and net = "scripted [http 401 ''denied'' (Inl (OtherException ''denied'')),
                 Raised (Timeout ''read timed out'')] (ok_reply ''A tort is...'')",
        THEN conjunct1]
      alternative_models [where key = "Some ''sk-test123''" and db = tort_store
        and u = "''What is a tort?''" and w = init_world
        and net = "scripted [http 429 ''slow down'' (Inl (OtherException ''slow down'')),
                 ok_reply ''A tort is...''] (ok_reply ''never asked'')",
        THEN conjunct1]
      alternative_models [where key = "Some ''sk-test123''" and db = tort_store
        and u = "''What is a tort?''" and w = init_world
        and net = "always (http 200 ''{}'' (Inl (OtherException ''choices'')))",
        THEN conjunct1]
      f1 f2 f3
    by (simp add: init_world_def alternative_calls_def)
qed

text \<open>
  C9 at a failing input: a key that does not start with \<^verbatim>\<open>sk-or-\<close> and a provider that
  answers every call with status 500. The dispatch makes four calls; the first two are
  the same request, to the same endpoint with the same model \<^verbatim>\<open>gpt-3.5-turbo\<close>.
\<close>

theorem primary_request_repeated:
  "map req (calls (snd (get_ai_response_external_only (Some ''sk-test123'') tort_store
       (always (http 500 ''boom'' (Inl (OtherException ''boom'')))) ''What is a tort?''
       init_world)))
   = [openai_request (Some ''sk-test123'') tort_store ''gpt-3.5-turbo'',
      openai_request (Some ''sk-test123'') tort_store ''gpt-3.5-turbo'',
      openai_request (Some ''sk-test123'') tort_store ''gpt-4'',
      openai_request (Some ''sk-test123'') tort_store ''gpt-4-turbo-preview'']
   \<and> url (openai_request (Some ''sk-test123'') tort_store ''gpt-3.5-turbo'') = openai_url
   \<and> model (openai_request (Some ''sk-test123'') tort_store ''gpt-3.5-turbo'') = ''gpt-3.5-turbo''"
  by (simp add: get_ai_response_external_only_def guarded_def startswith_def
      try_openai_api_def try_alternative_openai_api_def models_to_try_def requests_post_def
      always_def http_def init_world_def error_occurred_send_def Let_def openai_request_def)

text \<open>
  C10. The argument \<open>user_input\<close> is ignored: for the same key, message store, network and
  state, any two user texts give the same result and the same logs (hence the same
  outbound requests), in the dispatcher and in each of the three attempt functions. The
  reply depends on the stored history only.
\<close>

theorem user_input_ignored:
  "get_ai_response_external_only key db net u1 w = get_ai_response_external_only key db net u2 w
   \<and> try_openai_api key db net u1 w = try_openai_api key db net u2 w
   \<and> try_openrouter_api key db net u1 w = try_openrouter_api key db net u2 w
   \<and> try_alternative_openai_api key db net u1 w = try_alternative_openai_api key db net u2 w"
  unfolding get_ai_response_external_only_def
    try_openai_api_user_input [of key db net u1 u2]
    try_openrouter_api_user_input [of key db net u1 u2]
    try_alternative_openai_api_user_input [of key db net u1 u2]
  by simp

end
